theory Spec2Isabelle
  imports Main
begin

section \<open>Python values and the primitives the agent uses\<close>

text \<open>
  The weather provider's answer is whatever \<^verbatim>\<open>response.json()\<close> parses: a JSON value.
  Python dictionaries keep insertion order, so a dictionary is an association list whose
  first binding of a key is the one a lookup finds. Floats are never computed with by the
  agent, only passed on, so they are left abstract (the type parameter).

  Text is a \<^typ>\<open>string\<close> holding the UTF-8 bytes of the Python \<^verbatim>\<open>str\<close>: the agent
  only tests text for emptiness and equality, concatenates it and strips white space,
  and all four agree with the code-point view once white space is matched code point
  by code point.
\<close>

datatype 'f pyval =
    PNone
  | PBool bool
  | PInt int
  | PFloat 'f
  | PStr string
  | PList "'f pyval list"
  | PDict "(string \<times> 'f pyval) list"

datatype pyexc = AttributeError string | TypeError string

text \<open>\<^verbatim>\<open>str(e)\<close> of an exception raised by the interpreter is its message.\<close>

fun str_exc :: "pyexc \<Rightarrow> string" where
  "str_exc (AttributeError m) = m"
| "str_exc (TypeError m) = m"

fun type_name :: "'f pyval \<Rightarrow> string" where
  "type_name PNone = ''NoneType''"
| "type_name (PBool _) = ''bool''"
| "type_name (PInt _) = ''int''"
| "type_name (PFloat _) = ''float''"
| "type_name (PStr _) = ''str''"
| "type_name (PList _) = ''list''"
| "type_name (PDict _) = ''dict''"

definition quoted :: "string \<Rightarrow> string" where
  "quoted s = [CHR 0x27] @ s @ [CHR 0x27]"

text \<open>\<^verbatim>\<open>obj.get(key, default)\<close>: only a dictionary has the method.\<close>

fun py_get :: "'f pyval \<Rightarrow> string \<Rightarrow> 'f pyval \<Rightarrow> pyexc + 'f pyval" where
  "py_get (PDict kvs) key dflt = Inr (case map_of kvs key of Some v \<Rightarrow> v | None \<Rightarrow> dflt)"
| "py_get obj key dflt =
     Inl (AttributeError (quoted (type_name obj) @ '' object has no attribute '' @ quoted ''get''))"

text \<open>\<^verbatim>\<open>obj.get(key)\<close>, whose default is \<^verbatim>\<open>None\<close>.\<close>

definition py_get_none :: "'f pyval \<Rightarrow> string \<Rightarrow> pyexc + 'f pyval" where
  "py_get_none obj key = py_get obj key PNone"

text \<open>Sequencing of computations that may raise: the first exception wins.\<close>

fun and_then :: "'e + 'a \<Rightarrow> ('a \<Rightarrow> 'e + 'b) \<Rightarrow> 'e + 'b" where
  "and_then (Inl e) f = Inl e"
| "and_then (Inr x) f = f x"

fun for_each :: "('a \<Rightarrow> 'e + 'b) \<Rightarrow> 'a list \<Rightarrow> 'e + 'b list" where
  "for_each f [] = Inr []"
| "for_each f (x # xs) =
     and_then (f x) (\<lambda>y. and_then (for_each f xs) (\<lambda>ys. Inr (y # ys)))"

text \<open>
  A dictionary display \<^verbatim>\<open>{k1: e1, k2: e2, ...}\<close> evaluates its values left to right.
\<close>

definition dict_display :: "(string \<times> ('e + 'v)) list \<Rightarrow> 'e + (string \<times> 'v) list" where
  "dict_display items = for_each (\<lambda>(k, c). and_then c (\<lambda>v. Inr (k, v))) items"

subsection \<open>Code points of a UTF-8 text, and \<^verbatim>\<open>str.strip()\<close>\<close>

definition is_continuation :: "char \<Rightarrow> bool" where
  "is_continuation c = (0x80 \<le> (of_char c :: nat) \<and> (of_char c :: nat) < 0xC0)"

fun attach :: "char \<Rightarrow> string list \<Rightarrow> string list" where
  "attach c [] = [[c]]"
| "attach c (g # gs) =
     (case g of
        [] \<Rightarrow> [c] # gs
      | d # _ \<Rightarrow> if is_continuation d then (c # g) # gs else [c] # g # gs)"

definition code_points :: "string \<Rightarrow> string list" where
  "code_points s = foldr attach s []"

text \<open>The code points for which \<^verbatim>\<open>str.isspace()\<close> holds, in UTF-8.\<close>

definition whitespace :: "string list" where
  "whitespace =
     [[CHR 0x09], [CHR 0x0A], [CHR 0x0B], [CHR 0x0C], [CHR 0x0D],
      [CHR 0x1C], [CHR 0x1D], [CHR 0x1E], [CHR 0x1F], [CHR 0x20],
      [CHR 0xC2, CHR 0x85], [CHR 0xC2, CHR 0xA0], [CHR 0xE1, CHR 0x9A, CHR 0x80],
      [CHR 0xE2, CHR 0x80, CHR 0x80], [CHR 0xE2, CHR 0x80, CHR 0x81],
      [CHR 0xE2, CHR 0x80, CHR 0x82], [CHR 0xE2, CHR 0x80, CHR 0x83],
      [CHR 0xE2, CHR 0x80, CHR 0x84], [CHR 0xE2, CHR 0x80, CHR 0x85],
      [CHR 0xE2, CHR 0x80, CHR 0x86], [CHR 0xE2, CHR 0x80, CHR 0x87],
      [CHR 0xE2, CHR 0x80, CHR 0x88], [CHR 0xE2, CHR 0x80, CHR 0x89],
      [CHR 0xE2, CHR 0x80, CHR 0x8A], [CHR 0xE2, CHR 0x80, CHR 0xA8],
      [CHR 0xE2, CHR 0x80, CHR 0xA9], [CHR 0xE2, CHR 0x80, CHR 0xAF],
      [CHR 0xE2, CHR 0x81, CHR 0x9F], [CHR 0xE3, CHR 0x80, CHR 0x80]]"

definition isspace :: "string \<Rightarrow> bool" where
  "isspace c = (c \<in> set whitespace)"

definition strip :: "string \<Rightarrow> string" where
  "strip s = concat (rev (dropWhile isspace (rev (dropWhile isspace (code_points s)))))"

text \<open>
  Iteration (\<^verbatim>\<open>for x in obj\<close>): a list gives its elements, a dictionary its keys, a text
  its characters; nothing else is iterable.
\<close>

fun py_iter :: "'f pyval \<Rightarrow> pyexc + 'f pyval list" where
  "py_iter (PList xs) = Inr xs"
| "py_iter (PDict kvs) = Inr (map (\<lambda>(k, _). PStr k) kvs)"
| "py_iter (PStr s) = Inr (map PStr (code_points s))"
| "py_iter obj = Inl (TypeError (quoted (type_name obj) @ '' object is not iterable''))"

text \<open>Truth value of an object, as \<^verbatim>\<open>if obj:\<close> takes it.\<close>

fun py_truthy :: "('f \<Rightarrow> bool) \<Rightarrow> 'f pyval \<Rightarrow> bool" where
  "py_truthy nz PNone = False"
| "py_truthy nz (PBool b) = b"
| "py_truthy nz (PInt i) = (i \<noteq> 0)"
| "py_truthy nz (PFloat x) = nz x"
| "py_truthy nz (PStr s) = (s \<noteq> [])"
| "py_truthy nz (PList xs) = (xs \<noteq> [])"
| "py_truthy nz (PDict kvs) = (kvs \<noteq> [])"

text \<open>
  A replacement field \<^verbatim>\<open>{obj}\<close> of an f-string: \<^verbatim>\<open>None\<close>, booleans and text are
  written here; how numbers and containers print is the interpreter's (\<open>rp\<close>).
\<close>

fun py_format :: "('f pyval \<Rightarrow> string) \<Rightarrow> 'f pyval \<Rightarrow> string" where
  "py_format rp PNone = ''None''"
| "py_format rp (PBool b) = (if b then ''True'' else ''False'')"
| "py_format rp (PStr s) = s"
| "py_format rp v = rp v"

section \<open>The external collaborators\<close>

text \<open>
  What is outside the source file: the Groq chat client, the HTTP client, and three
  pieces of the Python runtime (JSON printing, the printing of numbers and containers,
  and the zero test of floats). An exception of a collaborator is the text \<^verbatim>\<open>str(e)\<close>.
\<close>

datatype message = SystemMessage string | HumanMessage string | AIMessage string

datatype 'f http_result =
    RequestException string
  | OtherException string
  | JsonBody "'f pyval"

record 'f env =
  ChatGroq :: "string \<Rightarrow> string option"
  llm_invoke :: "string \<Rightarrow> message list \<Rightarrow> string + string"
  requests_get :: "string \<Rightarrow> string \<Rightarrow> 'f http_result"
  json_dumps :: "(string \<times> 'f pyval) list \<Rightarrow> string"
  py_repr :: "'f pyval \<Rightarrow> string"
  float_nonzero :: "'f \<Rightarrow> bool"

text \<open>
  \<open>ChatGroq env key\<close> is the construction of the client with the fixed model, temperature
  and token limit: \<open>None\<close> when it succeeds, the exception's text otherwise. A constructed
  client is known by its key. \<open>requests_get env key q\<close> stands for the request with the
  fixed URL, \<^verbatim>\<open>days=3\<close>, \<^verbatim>\<open>aqi=no\<close>, \<^verbatim>\<open>alerts=yes\<close> and the ten second timeout,
  followed by \<^verbatim>\<open>raise_for_status()\<close> and \<^verbatim>\<open>json()\<close>.

  The module's two global variables, and a log of the calls that left the process.
\<close>

datatype call =
    Call_ChatGroq string
  | Call_invoke string "message list"
  | Call_requests_get string string

record world =
  GROQ_API_KEY :: string
  WEATHER_API_KEY :: string
  calls :: "call list"

definition logged :: "call \<Rightarrow> world \<Rightarrow> world" where
  "logged c w = w\<lparr>calls := calls w @ [c]\<rparr>"

section \<open>The state that flows through the workflow\<close>

text \<open>
  \<^verbatim>\<open>AgentState\<close> is a total \<^verbatim>\<open>TypedDict\<close>: every key is present, so the defaults of
  the \<^verbatim>\<open>state.get(key, default)\<close> calls in the source are never taken.
\<close>

record 'f AgentState =
  messages :: "message list"
  user_query :: string
  location :: string
  weather_data :: "(string \<times> 'f pyval) list"
  recommendations :: string
  error :: string

section \<open>The language model\<close>

definition get_llm :: "'f env \<Rightarrow> world \<Rightarrow> (string + string) \<times> world" where
  "get_llm env w =
     (if GROQ_API_KEY w = [] then
        (Inl ''GROQ_API_KEY not set. Please set it as an environment variable.'', w)
      else
        (case ChatGroq env (GROQ_API_KEY w) of
           Some e \<Rightarrow> Inl e
         | None \<Rightarrow> Inr (GROQ_API_KEY w),
         logged (Call_ChatGroq (GROQ_API_KEY w)) w))"

definition invoke_llm ::
    "'f env \<Rightarrow> world \<Rightarrow> string \<Rightarrow> message list \<Rightarrow> (string + string) \<times> world" where
  "invoke_llm env w llm msgs = (llm_invoke env llm msgs, logged (Call_invoke llm msgs) w)"

definition text_lines :: "string list \<Rightarrow> string" where
  "text_lines ls = concat (map (\<lambda>l. l @ [CHR 0x0A]) (butlast ls)) @ last ls"

section \<open>The weather client\<close>

definition current_summary :: "'f pyval \<Rightarrow> pyexc + 'f pyval" where
  "current_summary current =
     and_then
       (dict_display
          [(''temp_c'', py_get_none current ''temp_c''),
           (''temp_f'', py_get_none current ''temp_f''),
           (''condition'',
              and_then (py_get current ''condition'' (PDict [])) (\<lambda>c. py_get_none c ''text'')),
           (''wind_kph'', py_get_none current ''wind_kph''),
           (''wind_mph'', py_get_none current ''wind_mph''),
           (''humidity'', py_get_none current ''humidity''),
           (''feelslike_c'', py_get_none current ''feelslike_c''),
           (''feelslike_f'', py_get_none current ''feelslike_f''),
           (''uv'', py_get_none current ''uv''),
           (''visibility_km'', py_get_none current ''vis_km'')])
       (\<lambda>d. Inr (PDict d))"

definition day_summary :: "'f pyval \<Rightarrow> pyexc + 'f pyval" where
  "day_summary day =
     and_then (py_get day ''day'' (PDict [])) (\<lambda>day_data.
     and_then
       (dict_display
          [(''date'', py_get_none day ''date''),
           (''max_temp_c'', py_get_none day_data ''maxtemp_c''),
           (''min_temp_c'', py_get_none day_data ''mintemp_c''),
           (''max_temp_f'', py_get_none day_data ''maxtemp_f''),
           (''min_temp_f'', py_get_none day_data ''mintemp_f''),
           (''condition'',
              and_then (py_get day_data ''condition'' (PDict [])) (\<lambda>c. py_get_none c ''text'')),
           (''rain_chance'', py_get_none day_data ''daily_chance_of_rain''),
           (''snow_chance'', py_get_none day_data ''daily_chance_of_snow''),
           (''max_wind_kph'', py_get_none day_data ''maxwind_kph''),
           (''avg_humidity'', py_get_none day_data ''avghumidity''),
           (''uv'', py_get_none day_data ''uv'')])
       (\<lambda>d. Inr (PDict d)))"

definition alert_summary :: "'f pyval \<Rightarrow> pyexc + 'f pyval" where
  "alert_summary alert =
     and_then
       (dict_display
          [(''headline'', py_get_none alert ''headline''),
           (''severity'', py_get_none alert ''severity''),
           (''event'', py_get_none alert ''event'')])
       (\<lambda>d. Inr (PDict d))"

text \<open>
  Lines 84 to 140 of the source: the summary built from the parsed response, in the
  order in which the source evaluates it.
\<close>

definition weather_summary :: "'f env \<Rightarrow> 'f pyval \<Rightarrow> pyexc + (string \<times> 'f pyval) list" where
  "weather_summary env data =
     and_then (py_get data ''current'' (PDict [])) (\<lambda>current.
     and_then (and_then (py_get data ''forecast'' (PDict []))
                 (\<lambda>f. py_get f ''forecastday'' (PList []))) (\<lambda>forecast_days.
     and_then (py_get data ''location'' (PDict [])) (\<lambda>location_info.
     and_then
       (dict_display
          [(''location'',
              and_then (py_get_none location_info ''name'') (\<lambda>n.
              and_then (py_get_none location_info ''country'') (\<lambda>c.
                Inr (PStr (py_format (py_repr env) n @ '', '' @ py_format (py_repr env) c))))),
           (''local_time'', py_get_none location_info ''localtime''),
           (''current'', current_summary current)]) (\<lambda>summary.
     and_then (py_iter forecast_days) (\<lambda>days.
     and_then (for_each day_summary days) (\<lambda>forecast.
     and_then (and_then (py_get data ''alerts'' (PDict []))
                 (\<lambda>a. py_get a ''alert'' (PList []))) (\<lambda>alerts.
       if py_truthy (float_nonzero env) alerts then
         and_then (py_iter alerts) (\<lambda>als.
         and_then (for_each alert_summary als) (\<lambda>out.
           Inr (summary @ [(''forecast'', PList forecast), (''alerts'', PList out)])))
       else Inr (summary @ [(''forecast'', PList forecast)]))))))))"

text \<open>
  \<open>Inl m\<close> is the dictionary \<^verbatim>\<open>{"error": m}\<close> that the source returns, \<open>Inr d\<close> the
  summary \<open>d\<close>, which has no key \<^verbatim>\<open>"error"\<close>: the test \<^verbatim>\<open>"error" in weather_data\<close> of
  the caller is the case distinction on the sum.
\<close>

definition fetch_weather_data ::
    "'f env \<Rightarrow> world \<Rightarrow> string \<Rightarrow> (string + (string \<times> 'f pyval) list) \<times> world" where
  "fetch_weather_data env w place =
     (if WEATHER_API_KEY w = [] then (Inl ''WEATHER_API_KEY not set'', w)
      else
        (case requests_get env (WEATHER_API_KEY w) place of
           RequestException e \<Rightarrow> Inl (''Weather API error: '' @ e)
         | OtherException e \<Rightarrow> Inl (''Unexpected error: '' @ e)
         | JsonBody data \<Rightarrow>
             (case weather_summary env data of
                Inl ex \<Rightarrow> Inl (''Unexpected error: '' @ str_exc ex)
              | Inr d \<Rightarrow> Inr d),
         logged (Call_requests_get (WEATHER_API_KEY w) place) w))"

section \<open>The agent's nodes\<close>

definition extract_system_prompt :: string where
  \<open>extract_system_prompt = text_lines
     [''You are a location extraction expert. Extract the primary geographic location from the user's query.'',
      ''        '',
      ''Rules:'',
      ''- Return ONLY the location name (city, region, or country)'',
      ''- If multiple locations are mentioned, return the primary one'',
      ''- If no location is mentioned, return "unknown"'',
      ''- Do not include any explanation, just the location name'',
      [],
      ''Examples:'',
      ''User: "What should I wear in Paris tomorrow?"'',
      ''Response: Paris'',
      [],
      ''User: "Is it safe to travel to Tokyo next week?"'',
      ''Response: Tokyo'',
      [],
      ''User: "What's the weather like?"'',
      ''Response: unknown'']\<close>

definition extract_location_node ::
    "'f env \<Rightarrow> world \<Rightarrow> 'f AgentState \<Rightarrow> 'f AgentState \<times> world" where
  "extract_location_node env w s =
     (case get_llm env w of
        (Inl e, w1) \<Rightarrow> (s\<lparr>error := ''Location extraction error: '' @ e\<rparr>, w1)
      | (Inr llm, w1) \<Rightarrow>
          (case invoke_llm env w1 llm
                  [SystemMessage extract_system_prompt, HumanMessage (user_query s)] of
             (Inl e, w2) \<Rightarrow> (s\<lparr>error := ''Location extraction error: '' @ e\<rparr>, w2)
           | (Inr content, w2) \<Rightarrow>
               (s\<lparr>location := strip content,
                  messages := messages s @ [AIMessage (''Extracted location: '' @ strip content)]\<rparr>,
                w2)))"

text \<open>
  \<open>fetch_weather_data\<close> catches every exception itself, so the handler around the call
  in the source (``Weather fetch error'') has nothing to catch.
\<close>

definition fetch_weather_node ::
    "'f env \<Rightarrow> world \<Rightarrow> 'f AgentState \<Rightarrow> 'f AgentState \<times> world" where
  "fetch_weather_node env w s =
     (if location s = ''unknown'' \<or> location s = [] then
        (s\<lparr>error := ''No location specified. Please include a city or location in your query.''\<rparr>,
         w)
      else
        (case fetch_weather_data env w (location s) of
           (Inl m, w1) \<Rightarrow> (s\<lparr>error := m\<rparr>, w1)
         | (Inr d, w1) \<Rightarrow>
             (s\<lparr>weather_data := d,
                messages := messages s @
                  [AIMessage (''Fetched weather data for '' @
                     py_format (py_repr env)
                       (case map_of d ''location'' of Some v \<Rightarrow> v | None \<Rightarrow> PNone))]\<rparr>,
              w1)))"

definition recommend_system_prompt :: string where
  \<open>recommend_system_prompt = text_lines
     [''You are a weather-based recommendation expert. Analyze the provided weather data and user query to generate practical, actionable recommendations.'',
      [],
      ''Your recommendations should cover:'',
      ''1. **Clothing Suggestions**: Based on temperature, wind, rain, and UV index'',
      ''2. **Travel Safety**: Assess any weather-related risks'',
      ''3. **Activity Planning**: Suggest best times and precautions'',
      ''4. **Health Considerations**: UV protection, hydration, etc.'',
      [],
      ''Guidelines:'',
      ''- Be specific and practical'',
      ''- Consider current conditions AND forecast'',
      ''- Mention any weather alerts if present'',
      ''- Use natural, conversational language'',
      ''- Focus on what matters most to the user's intent'',
      ''- Include temperature in both Celsius and Fahrenheit when relevant'',
      [],
      ''Format your response in clear sections with appropriate headers.'']\<close>

definition recommend_request :: "string \<Rightarrow> string \<Rightarrow> string" where
  "recommend_request query weather_context = text_lines
     [''User Query: '' @ query,
      [],
      ''Weather Data:'',
      weather_context,
      [],
      ''Provide comprehensive recommendations based on this information.'']"

definition analyze_and_recommend_node ::
    "'f env \<Rightarrow> world \<Rightarrow> 'f AgentState \<Rightarrow> 'f AgentState \<times> world" where
  "analyze_and_recommend_node env w s =
     (case get_llm env w of
        (Inl e, w1) \<Rightarrow> (s\<lparr>error := ''Recommendation generation error: '' @ e\<rparr>, w1)
      | (Inr llm, w1) \<Rightarrow>
          if weather_data s = [] then (s\<lparr>error := ''No weather data available''\<rparr>, w1)
          else
            (case invoke_llm env w1 llm
                    [SystemMessage recommend_system_prompt,
                     HumanMessage
                       (recommend_request (user_query s) (json_dumps env (weather_data s)))] of
               (Inl e, w2) \<Rightarrow> (s\<lparr>error := ''Recommendation generation error: '' @ e\<rparr>, w2)
             | (Inr content, w2) \<Rightarrow>
                 (s\<lparr>recommendations := content,
                    messages := messages s @ [AIMessage ''Generated recommendations'']\<rparr>,
                  w2)))"

text \<open>The warning sign and the cross mark of the source's messages, in UTF-8.\<close>

definition warning_sign :: string where
  "warning_sign = [CHR 0xE2, CHR 0x9A, CHR 0xA0, CHR 0xEF, CHR 0xB8, CHR 0x8F]"

definition cross_mark :: string where
  "cross_mark = [CHR 0xE2, CHR 0x9D, CHR 0x8C]"

definition error_handler_node :: "'f AgentState \<Rightarrow> 'f AgentState" where
  "error_handler_node s =
     s\<lparr>recommendations :=
         warning_sign @ '' **Error**: '' @ error s @ [CHR 0x0A, CHR 0x0A] @
         ''Please try again with a different query or check your API keys.''\<rparr>"

section \<open>Routing\<close>

definition should_continue :: "'f AgentState \<Rightarrow> string" where
  "should_continue s = (if error s \<noteq> [] then ''error'' else ''fetch_weather'')"

definition after_weather_fetch :: "'f AgentState \<Rightarrow> string" where
  "after_weather_fetch s = (if error s \<noteq> [] then ''error'' else ''analyze'')"

section \<open>The workflow graph\<close>

text \<open>
  The source describes the workflow to the graph library by naming nodes and edges. The
  description is kept as data, and \<open>run\<close> below executes it the way the library does for
  a graph of this kind: run the current node, pick the successor (through the router and
  its table for a conditional edge), stop at \<open>END\<close>, and give up after the step limit.
  The message log is kept as the nodes append to it; nothing in the workflow reads it.
\<close>

type_synonym 'f node_fn = "'f env \<Rightarrow> world \<Rightarrow> 'f AgentState \<Rightarrow> 'f AgentState \<times> world"

record 'f StateGraph =
  nodes :: "(string \<times> 'f node_fn) list"
  entry_point :: string
  conditional_edges ::
    "(string \<times> ('f AgentState \<Rightarrow> string) \<times> (string \<times> string) list) list"
  edges :: "(string \<times> string) list"

definition END :: string where
  "END = ''__end__''"

definition empty_graph :: "'f StateGraph" where
  "empty_graph = \<lparr>nodes = [], entry_point = END, conditional_edges = [], edges = []\<rparr>"

definition add_node :: "string \<Rightarrow> 'f node_fn \<Rightarrow> 'f StateGraph \<Rightarrow> 'f StateGraph" where
  "add_node name f g = g\<lparr>nodes := nodes g @ [(name, f)]\<rparr>"

definition set_entry_point :: "string \<Rightarrow> 'f StateGraph \<Rightarrow> 'f StateGraph" where
  "set_entry_point name g = g\<lparr>entry_point := name\<rparr>"

definition add_conditional_edges ::
    "string \<Rightarrow> ('f AgentState \<Rightarrow> string) \<Rightarrow> (string \<times> string) list \<Rightarrow>
     'f StateGraph \<Rightarrow> 'f StateGraph" where
  "add_conditional_edges src router path_map g =
     g\<lparr>conditional_edges := conditional_edges g @ [(src, router, path_map)]\<rparr>"

definition add_edge :: "string \<Rightarrow> string \<Rightarrow> 'f StateGraph \<Rightarrow> 'f StateGraph" where
  "add_edge src dst g = g\<lparr>edges := edges g @ [(src, dst)]\<rparr>"

definition create_agent_graph :: "'f StateGraph" where
  "create_agent_graph =
     (add_edge ''error'' END
      (add_edge ''analyze'' END
      (add_conditional_edges ''fetch_weather'' after_weather_fetch
         [(''analyze'', ''analyze''), (''error'', ''error'')]
      (add_conditional_edges ''extract_location'' should_continue
         [(''fetch_weather'', ''fetch_weather''), (''error'', ''error'')]
      (set_entry_point ''extract_location''
      (add_node ''error'' (\<lambda>env w s. (error_handler_node s, w))
      (add_node ''analyze'' analyze_and_recommend_node
      (add_node ''fetch_weather'' fetch_weather_node
      (add_node ''extract_location'' extract_location_node
       empty_graph)))))))))"

datatype graph_error = UnknownNode string | UnknownRoute string | RecursionLimit

definition next_node :: "'f StateGraph \<Rightarrow> string \<Rightarrow> 'f AgentState \<Rightarrow> graph_error + string" where
  "next_node g n s =
     (case map_of (conditional_edges g) n of
        Some (router, path_map) \<Rightarrow>
          (case map_of path_map (router s) of
             Some n' \<Rightarrow> Inr n'
           | None \<Rightarrow> Inl (UnknownRoute (router s)))
      | None \<Rightarrow>
          (case map_of (edges g) n of
             Some n' \<Rightarrow> Inr n'
           | None \<Rightarrow> Inr END))"

text \<open>
  The result of a run: the final state, the world, and the nodes that ran, in order; or
  the library's exception, with the world as the nodes before it left it.
\<close>

fun run ::
    "nat \<Rightarrow> 'f StateGraph \<Rightarrow> 'f env \<Rightarrow> string \<Rightarrow> 'f AgentState \<times> world \<times> string list \<Rightarrow>
     (graph_error \<times> world) + ('f AgentState \<times> world \<times> string list)" where
  "run 0 g env n (s, w, path) = (if n = END then Inr (s, w, path) else Inl (RecursionLimit, w))"
| "run (Suc k) g env n (s, w, path) =
     (if n = END then Inr (s, w, path)
      else
        (case map_of (nodes g) n of
           None \<Rightarrow> Inl (UnknownNode n, w)
         | Some f \<Rightarrow>
             (case f env w s of
                (s', w') \<Rightarrow>
                  (case next_node g n s' of
                     Inl e \<Rightarrow> Inl (e, w')
                   | Inr n' \<Rightarrow> run k g env n' (s', w', path @ [n])))))"

definition recursion_limit :: nat where
  "recursion_limit = 25"

definition invoke ::
    "'f StateGraph \<Rightarrow> 'f env \<Rightarrow> world \<Rightarrow> 'f AgentState \<Rightarrow>
     (graph_error \<times> world) + ('f AgentState \<times> world \<times> string list)" where
  "invoke g env w s = run recursion_limit g env (entry_point g) (s, w, [])"

section \<open>The entry point\<close>

text \<open>
  The wording of the graph library's own exceptions is not in the source; the workflow
  built above raises none of them.
\<close>

fun str_graph_error :: "graph_error \<Rightarrow> string" where
  "str_graph_error (UnknownNode n) = ''unknown node '' @ n"
| "str_graph_error (UnknownRoute l) = ''unknown route '' @ l"
| "str_graph_error RecursionLimit = ''recursion limit reached''"

definition initial_state :: "string \<Rightarrow> 'f AgentState" where
  "initial_state query =
     \<lparr>messages = [], user_query = query, location = [], weather_data = [],
      recommendations = [], error = []\<rparr>"

definition set_api_keys :: "string \<Rightarrow> string \<Rightarrow> world \<Rightarrow> world" where
  "set_api_keys groq_key weather_key w =
     w\<lparr>GROQ_API_KEY := (if groq_key \<noteq> [] then groq_key else GROQ_API_KEY w),
       WEATHER_API_KEY := (if weather_key \<noteq> [] then weather_key else WEATHER_API_KEY w)\<rparr>"

definition process_query ::
    "'f env \<Rightarrow> world \<Rightarrow> string \<Rightarrow> string \<Rightarrow> string \<Rightarrow> string \<times> world" where
  "process_query env w query groq_key weather_key =
     (let w0 = set_api_keys groq_key weather_key w in
      if GROQ_API_KEY w0 = [] then (cross_mark @ '' Please provide your Groq API key'', w0)
      else if WEATHER_API_KEY w0 = [] then
        (cross_mark @ '' Please provide your WeatherAPI key'', w0)
      else if strip query = [] then (cross_mark @ '' Please enter a query'', w0)
      else
        (case invoke create_agent_graph env w0 (initial_state query) of
           Inr (result, w1, path) \<Rightarrow> (recommendations result, w1)
         | Inl (e, w1) \<Rightarrow>
             (cross_mark @ '' **Error**: '' @ str_graph_error e @ [CHR 0x0A, CHR 0x0A] @
              ''Please check your API keys and try again.'', w1)))"

section \<open>The summary as the specification words it\<close>

text \<open>
  The specification describes the normalisation as a copy: a field of the provider's
  answer that is present is passed through, one that is missing becomes \<^verbatim>\<open>None\<close>, a
  missing forecast is the empty list, and the alerts appear only when there are some.
  \<open>summary_spec\<close> is that description, written without any failure; it is compared with
  \<open>weather_summary\<close> below. \<open>conforms\<close> says that the answer is a partial copy of the
  provider's schema: keys may be missing anywhere, and a container that is present is
  of the provider's kind.
\<close>

definition field :: "(string \<times> 'f pyval) list \<Rightarrow> string \<Rightarrow> 'f pyval" where
  "field d k = (case map_of d k of Some v \<Rightarrow> v | None \<Rightarrow> PNone)"

fun members :: "'f pyval \<Rightarrow> (string \<times> 'f pyval) list" where
  "members (PDict kvs) = kvs"
| "members v = []"

fun elements :: "'f pyval \<Rightarrow> 'f pyval list" where
  "elements (PList xs) = xs"
| "elements v = []"

definition section_of :: "(string \<times> 'f pyval) list \<Rightarrow> string \<Rightarrow> (string \<times> 'f pyval) list" where
  "section_of d k = (case map_of d k of Some v \<Rightarrow> members v | None \<Rightarrow> [])"

definition listing_of :: "(string \<times> 'f pyval) list \<Rightarrow> string \<Rightarrow> 'f pyval list" where
  "listing_of d k = (case map_of d k of Some v \<Rightarrow> elements v | None \<Rightarrow> [])"

definition current_spec :: "(string \<times> 'f pyval) list \<Rightarrow> 'f pyval" where
  "current_spec cur =
     PDict
       [(''temp_c'', field cur ''temp_c''),
        (''temp_f'', field cur ''temp_f''),
        (''condition'', field (section_of cur ''condition'') ''text''),
        (''wind_kph'', field cur ''wind_kph''),
        (''wind_mph'', field cur ''wind_mph''),
        (''humidity'', field cur ''humidity''),
        (''feelslike_c'', field cur ''feelslike_c''),
        (''feelslike_f'', field cur ''feelslike_f''),
        (''uv'', field cur ''uv''),
        (''visibility_km'', field cur ''vis_km'')]"

definition day_spec :: "'f pyval \<Rightarrow> 'f pyval" where
  "day_spec day =
     (let day_data = section_of (members day) ''day'' in
      PDict
        [(''date'', field (members day) ''date''),
         (''max_temp_c'', field day_data ''maxtemp_c''),
         (''min_temp_c'', field day_data ''mintemp_c''),
         (''max_temp_f'', field day_data ''maxtemp_f''),
         (''min_temp_f'', field day_data ''mintemp_f''),
         (''condition'', field (section_of day_data ''condition'') ''text''),
         (''rain_chance'', field day_data ''daily_chance_of_rain''),
         (''snow_chance'', field day_data ''daily_chance_of_snow''),
         (''max_wind_kph'', field day_data ''maxwind_kph''),
         (''avg_humidity'', field day_data ''avghumidity''),
         (''uv'', field day_data ''uv'')])"

definition alert_spec :: "'f pyval \<Rightarrow> 'f pyval" where
  "alert_spec alert =
     PDict
       [(''headline'', field (members alert) ''headline''),
        (''severity'', field (members alert) ''severity''),
        (''event'', field (members alert) ''event'')]"

definition location_label :: "('f pyval \<Rightarrow> string) \<Rightarrow> (string \<times> 'f pyval) list \<Rightarrow> string" where
  "location_label rp info = py_format rp (field info ''name'') @ '', '' @ py_format rp (field info ''country'')"

definition summary_spec ::
    "('f pyval \<Rightarrow> string) \<Rightarrow> (string \<times> 'f pyval) list \<Rightarrow> (string \<times> 'f pyval) list" where
  "summary_spec rp d =
     [(''location'', PStr (location_label rp (section_of d ''location''))),
      (''local_time'', field (section_of d ''location'') ''localtime''),
      (''current'', current_spec (section_of d ''current'')),
      (''forecast'', PList (map day_spec (listing_of (section_of d ''forecast'') ''forecastday'')))] @
     (case listing_of (section_of d ''alerts'') ''alert'' of
        [] \<Rightarrow> []
      | a # as \<Rightarrow> [(''alerts'', PList (map alert_spec (a # as)))])"

fun is_dict :: "'f pyval \<Rightarrow> bool" where
  "is_dict (PDict kvs) = True"
| "is_dict v = False"

definition where_present :: "(string \<times> 'f pyval) list \<Rightarrow> string \<Rightarrow> ('f pyval \<Rightarrow> bool) \<Rightarrow> bool" where
  "where_present d k ok = (case map_of d k of None \<Rightarrow> True | Some v \<Rightarrow> ok v)"

definition dict_where :: "((string \<times> 'f pyval) list \<Rightarrow> bool) \<Rightarrow> 'f pyval \<Rightarrow> bool" where
  "dict_where ok v = (case v of PDict kvs \<Rightarrow> ok kvs | _ \<Rightarrow> False)"

definition list_where :: "('f pyval \<Rightarrow> bool) \<Rightarrow> 'f pyval \<Rightarrow> bool" where
  "list_where ok v = (case v of PList xs \<Rightarrow> list_all ok xs | _ \<Rightarrow> False)"

definition conforms_conditions :: "(string \<times> 'f pyval) list \<Rightarrow> bool" where
  "conforms_conditions d = where_present d ''condition'' is_dict"

definition conforms_day :: "'f pyval \<Rightarrow> bool" where
  "conforms_day = dict_where (\<lambda>d. where_present d ''day'' (dict_where conforms_conditions))"

definition conforms :: "'f pyval \<Rightarrow> bool" where
  "conforms =
     dict_where (\<lambda>d.
       where_present d ''current'' (dict_where conforms_conditions) \<and>
       where_present d ''forecast''
         (dict_where (\<lambda>f. where_present f ''forecastday'' (list_where conforms_day))) \<and>
       where_present d ''location'' is_dict \<and>
       where_present d ''alerts''
         (dict_where (\<lambda>a. where_present a ''alert'' (list_where is_dict))))"

section \<open>Credentials and the call log\<close>

text \<open>
  \<open>uses_keys w c\<close>: the call \<open>c\<close> carries the key that the world \<open>w\<close> holds for its
  service. \<open>extends w w'\<close>: \<open>w'\<close> has the keys of \<open>w\<close>, and its log is the log of \<open>w\<close>
  followed by calls that carry those keys. \<open>same_keys\<close>: two worlds hold the same keys.
\<close>

definition uses_keys :: "world \<Rightarrow> call \<Rightarrow> bool" where
  "uses_keys w c =
     (case c of
        Call_ChatGroq key \<Rightarrow> key = GROQ_API_KEY w
      | Call_invoke key msgs \<Rightarrow> key = GROQ_API_KEY w
      | Call_requests_get key q \<Rightarrow> key = WEATHER_API_KEY w)"

definition extends :: "world \<Rightarrow> world \<Rightarrow> bool" where
  "extends w w' =
     (GROQ_API_KEY w' = GROQ_API_KEY w \<and> WEATHER_API_KEY w' = WEATHER_API_KEY w \<and>
      take (length (calls w)) (calls w') = calls w \<and>
      list_all (uses_keys w) (drop (length (calls w)) (calls w')))"

definition same_keys :: "world \<Rightarrow> world \<Rightarrow> bool" where
  "same_keys w v =
     (GROQ_API_KEY w = GROQ_API_KEY v \<and> WEATHER_API_KEY w = WEATHER_API_KEY v)"

section \<open>Sample collaborators\<close>

text \<open>
  Concrete collaborators on which the statements below are exercised: a language model
  that answers the extraction request with \<open>first\<close> and any other request with
  \<open>second\<close>, and a weather service with one fixed outcome. Floats are integers here.
\<close>

definition scripted_llm :: "string + string \<Rightarrow> string + string \<Rightarrow> message list \<Rightarrow> string + string" where
  "scripted_llm first second msgs =
     (if take 1 msgs = [SystemMessage extract_system_prompt] then first else second)"

definition sample_env :: "string + string \<Rightarrow> string + string \<Rightarrow> int http_result \<Rightarrow> int env" where
  "sample_env first second outcome =
     \<lparr>ChatGroq = (\<lambda>key. None),
      llm_invoke = (\<lambda>key. scripted_llm first second),
      requests_get = (\<lambda>key q. outcome),
      json_dumps = (\<lambda>d. ''{}''),
      py_repr = (\<lambda>v. ''?''),
      float_nonzero = (\<lambda>x. x \<noteq> 0)\<rparr>"

definition paris_weather :: "int pyval" where
  "paris_weather =
     PDict
       [(''location'', PDict [(''name'', PStr ''Paris''), (''country'', PStr ''France'')]),
        (''current'',
           PDict [(''temp_c'', PInt 15), (''temp_f'', PInt 59),
                  (''condition'', PDict [(''text'', PStr ''Light rain'')])]),
        (''forecast'',
           PDict [(''forecastday'',
              PList [PDict [(''date'', PStr ''2024-05-02''),
                            (''day'', PDict [(''maxtemp_c'', PInt 17),
                                             (''daily_chance_of_rain'', PInt 80)])]])])]"

definition paris_env :: "int env" where
  "paris_env = sample_env (Inr ''Paris'') (Inr ''Take an umbrella.'') (JsonBody paris_weather)"

text \<open>The model finds no location in the query.\<close>

definition no_location_env :: "int env" where
  "no_location_env = sample_env (Inr ''unknown'') (Inr ''Take an umbrella.'') (JsonBody paris_weather)"

text \<open>The weather request times out.\<close>

definition timeout_env :: "int env" where
  "timeout_env =
     sample_env (Inr ''Paris'') (Inr ''Take an umbrella.'') (RequestException ''Read timed out.'')"

text \<open>The model answers the extraction request and fails on the recommendation request.\<close>

definition rate_limited_env :: "int env" where
  "rate_limited_env =
     sample_env (Inr ''Paris'') (Inl ''Rate limit reached'') (JsonBody paris_weather)"

text \<open>The model returns an empty recommendation.\<close>

definition silent_env :: "int env" where
  "silent_env = sample_env (Inr ''Paris'') (Inr []) (JsonBody paris_weather)"

definition paris_summary :: "(string \<times> int pyval) list" where
  "paris_summary =
     [(''location'', PStr ''Paris, France''),
      (''local_time'', PNone),
      (''current'',
         PDict [(''temp_c'', PInt 15), (''temp_f'', PInt 59), (''condition'', PStr ''Light rain''),
                (''wind_kph'', PNone), (''wind_mph'', PNone), (''humidity'', PNone),
                (''feelslike_c'', PNone), (''feelslike_f'', PNone), (''uv'', PNone),
                (''visibility_km'', PNone)]),
      (''forecast'',
         PList [PDict [(''date'', PStr ''2024-05-02''), (''max_temp_c'', PInt 17),
                       (''min_temp_c'', PNone), (''max_temp_f'', PNone), (''min_temp_f'', PNone),
                       (''condition'', PNone), (''rain_chance'', PInt 80), (''snow_chance'', PNone),
                       (''max_wind_kph'', PNone), (''avg_humidity'', PNone), (''uv'', PNone)]])]"

definition sample_world :: world where
  "sample_world = \<lparr>GROQ_API_KEY = ''gsk'', WEATHER_API_KEY = ''wk'', calls = []\<rparr>"

definition paris_query :: string where
  "paris_query = ''What should I wear in Paris tomorrow?''"

definition vague_query :: string where
  \<open>vague_query = ''What's the weather like?''\<close>

section \<open>How the workflow runs\<close>

lemma graph_nodes:
  "nodes (create_agent_graph :: 'f StateGraph) =
     [(''extract_location'', extract_location_node),
      (''fetch_weather'', fetch_weather_node),
      (''analyze'', analyze_and_recommend_node),
      (''error'', (\<lambda>env w s. (error_handler_node s, w)))]"
  by (simp add: create_agent_graph_def add_edge_def add_conditional_edges_def
      set_entry_point_def add_node_def empty_graph_def)

lemma graph_entry_point: "entry_point create_agent_graph = ''extract_location''"
  by (simp add: create_agent_graph_def add_edge_def add_conditional_edges_def
      set_entry_point_def add_node_def empty_graph_def)

lemma graph_conditional_edges:
  "conditional_edges (create_agent_graph :: 'f StateGraph) =
     [(''extract_location'', should_continue,
         [(''fetch_weather'', ''fetch_weather''), (''error'', ''error'')]),
      (''fetch_weather'', after_weather_fetch,
         [(''analyze'', ''analyze''), (''error'', ''error'')])]"
  by (simp add: create_agent_graph_def add_edge_def add_conditional_edges_def
      set_entry_point_def add_node_def empty_graph_def)

lemma graph_edges:
  "edges create_agent_graph = [(''analyze'', END), (''error'', END)]"
  by (simp add: create_agent_graph_def add_edge_def add_conditional_edges_def
      set_entry_point_def add_node_def empty_graph_def)

lemma next_extract:
  "next_node create_agent_graph ''extract_location'' s =
     Inr (if error s \<noteq> [] then ''error'' else ''fetch_weather'')"
  by (simp add: next_node_def graph_conditional_edges should_continue_def)

lemma next_fetch:
  "next_node create_agent_graph ''fetch_weather'' s =
     Inr (if error s \<noteq> [] then ''error'' else ''analyze'')"
  by (simp add: next_node_def graph_conditional_edges after_weather_fetch_def)

lemma next_analyze: "next_node create_agent_graph ''analyze'' s = Inr END"
  by (simp add: next_node_def graph_conditional_edges graph_edges)

lemma next_error: "next_node create_agent_graph ''error'' s = Inr END"
  by (simp add: next_node_def graph_conditional_edges graph_edges)

lemma run_END: "run k g env END x = Inr x"
  by (cases k; cases x) simp_all

declare run.simps [simp del]

lemma run_end_literal: "run k g env ''__end__'' x = Inr x"
  using run_END [of k g env x] by (simp add: END_def)

lemma run_error:
  "run (Suc k) create_agent_graph env ''error'' (s, w, path) =
     Inr (error_handler_node s, w, path @ [''error''])"
  by (simp add: run.simps graph_nodes next_error run_end_literal END_def)

lemma run_analyze:
  "run (Suc k) create_agent_graph env ''analyze'' (s, w, path) =
     (case analyze_and_recommend_node env w s of
        (s', w') \<Rightarrow> Inr (s', w', path @ [''analyze'']))"
  by (cases "analyze_and_recommend_node env w s")
    (simp add: run.simps graph_nodes next_analyze run_end_literal END_def)

lemma run_fetch:
  "run (Suc (Suc k)) create_agent_graph env ''fetch_weather'' (s, w, path) =
     (case fetch_weather_node env w s of
        (s', w') \<Rightarrow>
          if error s' \<noteq> [] then
            Inr (error_handler_node s', w', path @ [''fetch_weather'', ''error''])
          else
            (case analyze_and_recommend_node env w' s' of
               (s'', w'') \<Rightarrow> Inr (s'', w'', path @ [''fetch_weather'', ''analyze''])))"
  by (cases "fetch_weather_node env w s")
    (simp add: run.simps(2) [of "Suc k"] graph_nodes next_fetch run_error run_analyze END_def)

lemma run_extract:
  "run (Suc (Suc (Suc k))) create_agent_graph env ''extract_location'' (s, w, path) =
     (case extract_location_node env w s of
        (s1, w1) \<Rightarrow>
          if error s1 \<noteq> [] then
            Inr (error_handler_node s1, w1, path @ [''extract_location'', ''error''])
          else
            (case fetch_weather_node env w1 s1 of
               (s2, w2) \<Rightarrow>
                 if error s2 \<noteq> [] then
                   Inr (error_handler_node s2, w2,
                        path @ [''extract_location'', ''fetch_weather'', ''error''])
                 else
                   (case analyze_and_recommend_node env w2 s2 of
                      (s3, w3) \<Rightarrow>
                        Inr (s3, w3,
                             path @ [''extract_location'', ''fetch_weather'', ''analyze'']))))"
  by (cases "extract_location_node env w s")
    (simp add: run.simps(2) [of "Suc (Suc k)"] graph_nodes next_extract run_error run_fetch END_def
       split: prod.splits)

lemma invoke_workflow:
  "invoke create_agent_graph env w s =
     (case extract_location_node env w s of
        (s1, w1) \<Rightarrow>
          if error s1 \<noteq> [] then
            Inr (error_handler_node s1, w1, [''extract_location'', ''error''])
          else
            (case fetch_weather_node env w1 s1 of
               (s2, w2) \<Rightarrow>
                 if error s2 \<noteq> [] then
                   Inr (error_handler_node s2, w2,
                        [''extract_location'', ''fetch_weather'', ''error''])
                 else
                   (case analyze_and_recommend_node env w2 s2 of
                      (s3, w3) \<Rightarrow>
                        Inr (s3, w3, [''extract_location'', ''fetch_weather'', ''analyze'']))))"
proof -
  have limit: "recursion_limit = Suc (Suc (Suc 22))"
    by (simp add: recursion_limit_def)
  show ?thesis
    unfolding invoke_def graph_entry_point limit run_extract append_Nil by (rule refl)
qed

section \<open>Facts about the nodes and the sample collaborators\<close>

lemma prompts_differ: "recommend_system_prompt \<noteq> extract_system_prompt"
  by (simp add: recommend_system_prompt_def extract_system_prompt_def text_lines_def)

lemma scripted_extract:
  "scripted_llm a b [SystemMessage extract_system_prompt, m] = a"
  by (simp add: scripted_llm_def)

lemma scripted_recommend:
  "scripted_llm a b [SystemMessage recommend_system_prompt, m] = b"
  by (simp add: scripted_llm_def prompts_differ)

lemma strip_Paris: "strip ''Paris'' = ''Paris''"
  by code_simp

lemma strip_unknown: "strip ''unknown'' = ''unknown''"
  by code_simp

lemma strip_paris_query: "strip paris_query \<noteq> []"
  by code_simp

lemma get_llm_world:
  "get_llm env w = (r, w') \<Longrightarrow>
     GROQ_API_KEY w' = GROQ_API_KEY w \<and> WEATHER_API_KEY w' = WEATHER_API_KEY w"
  by (auto simp: get_llm_def logged_def split: if_splits)

lemma extract_location_node_keeps:
  assumes "extract_location_node env w s = (s', w')"
  shows "user_query s' = user_query s" and "weather_data s' = weather_data s"
    and "recommendations s' = recommendations s"
    and "GROQ_API_KEY w' = GROQ_API_KEY w" and "WEATHER_API_KEY w' = WEATHER_API_KEY w"
  using assms
  by (auto simp: extract_location_node_def get_llm_def invoke_llm_def logged_def
      split: if_splits option.splits sum.splits)

lemma fetch_weather_data_error_nonempty:
  "fetch_weather_data env w place = (Inl m, w') \<Longrightarrow> m \<noteq> []"
  by (auto simp: fetch_weather_data_def split: if_splits http_result.splits sum.splits)

lemma fetch_weather_data_world:
  "fetch_weather_data env w place = (r, w') \<Longrightarrow>
     GROQ_API_KEY w' = GROQ_API_KEY w \<and> WEATHER_API_KEY w' = WEATHER_API_KEY w"
  by (auto simp: fetch_weather_data_def logged_def split: if_splits)

lemma fetch_weather_node_keeps:
  assumes "fetch_weather_node env w s = (s', w')"
  shows "user_query s' = user_query s" and "recommendations s' = recommendations s"
    and "GROQ_API_KEY w' = GROQ_API_KEY w" and "WEATHER_API_KEY w' = WEATHER_API_KEY w"
  using assms
  by (auto simp: fetch_weather_node_def split: if_splits sum.splits prod.splits
      dest: fetch_weather_data_world)

lemma initial_state_fields:
  "messages (initial_state q) = []" "user_query (initial_state q) = q"
  "location (initial_state q) = []" "weather_data (initial_state q) = []"
  "recommendations (initial_state q) = []" "error (initial_state q) = []"
  by (simp_all add: initial_state_def)

lemma extract_sample:
  "extract_location_node (sample_env (Inr c) b h) sample_world (initial_state q) =
     ((initial_state q)\<lparr>location := strip c,
         messages := [AIMessage (''Extracted location: '' @ strip c)]\<rparr>,
      sample_world\<lparr>calls := [Call_ChatGroq ''gsk'',
         Call_invoke ''gsk'' [SystemMessage extract_system_prompt, HumanMessage q]]\<rparr>)"
  by (simp add: extract_location_node_def sample_env_def get_llm_def invoke_llm_def
      logged_def sample_world_def scripted_extract initial_state_def)

lemma fetch_timeout:
  "fetch_weather_data timeout_env w ''Paris'' =
     (if WEATHER_API_KEY w = [] then (Inl ''WEATHER_API_KEY not set'', w)
      else (Inl ''Weather API error: Read timed out.'',
            logged (Call_requests_get (WEATHER_API_KEY w) ''Paris'') w))"
  by (simp add: fetch_weather_data_def timeout_env_def sample_env_def)

section \<open>The normalisation against its specification\<close>

lemma py_get_none_dict: "py_get_none (PDict d) k = Inr (field d k)"
  by (simp add: py_get_none_def field_def)

lemma dict_where_is_dict: "dict_where ok v \<Longrightarrow> is_dict v"
  by (cases v) (simp_all add: dict_where_def)

lemma get_section:
  assumes "where_present d k is_dict"
  shows "py_get (PDict d) k (PDict []) = Inr (PDict (section_of d k))"
proof (cases "map_of d k")
  case None
  then show ?thesis by (simp add: section_of_def)
next
  case (Some v)
  with assms have "is_dict v" by (simp add: where_present_def)
  then obtain kvs where "v = PDict kvs" by (cases v) simp_all
  with Some show ?thesis by (simp add: section_of_def)
qed

lemma section_ok:
  assumes "where_present d k (dict_where ok)" and "ok []"
  shows "where_present d k is_dict" and "ok (section_of d k)"
proof -
  show "where_present d k is_dict"
    using assms(1) by (auto simp: where_present_def dict_where_is_dict split: option.splits)
  show "ok (section_of d k)"
  proof (cases "map_of d k")
    case None
    then show ?thesis using assms(2) by (simp add: section_of_def)
  next
    case (Some v)
    with assms(1) have "dict_where ok v" by (simp add: where_present_def)
    then show ?thesis
      using Some by (cases v) (simp_all add: dict_where_def section_of_def)
  qed
qed

lemma get_listing:
  assumes "where_present d k (list_where ok)"
  shows "py_get (PDict d) k (PList []) = Inr (PList (listing_of d k))"
    and "list_all ok (listing_of d k)"
proof -
  show "py_get (PDict d) k (PList []) = Inr (PList (listing_of d k))"
  proof (cases "map_of d k")
    case None
    then show ?thesis by (simp add: listing_of_def)
  next
    case (Some v)
    with assms have "list_where ok v" by (simp add: where_present_def)
    then show ?thesis
      using Some by (cases v) (simp_all add: list_where_def listing_of_def)
  qed
  show "list_all ok (listing_of d k)"
  proof (cases "map_of d k")
    case None
    then show ?thesis by (simp add: listing_of_def)
  next
    case (Some v)
    with assms have "list_where ok v" by (simp add: where_present_def)
    then show ?thesis
      using Some by (cases v) (simp_all add: list_where_def listing_of_def)
  qed
qed

lemma conforms_conditions_Nil: "conforms_conditions []"
  by (simp add: conforms_conditions_def where_present_def)

lemma condition_text:
  assumes "conforms_conditions d"
  shows "and_then (py_get (PDict d) ''condition'' (PDict [])) (\<lambda>c. py_get_none c ''text'') =
    Inr (field (section_of d ''condition'') ''text'')"
  using assms get_section [of d "''condition''"]
  by (simp add: conforms_conditions_def py_get_none_dict)

lemma current_summary_spec:
  assumes "conforms_conditions d"
  shows "current_summary (PDict d) = Inr (current_spec d)"
  unfolding current_summary_def condition_text [OF assms] py_get_none_dict
  by (simp add: dict_display_def current_spec_def)

lemma day_summary_spec:
  assumes "conforms_day day"
  shows "day_summary day = Inr (day_spec day)"
proof -
  from assms obtain d where day: "day = PDict d"
    and d: "where_present d ''day'' (dict_where conforms_conditions)"
    by (cases day) (simp_all add: conforms_day_def dict_where_def)
  note sec = section_ok [OF d conforms_conditions_Nil]
  show ?thesis
    unfolding day_summary_def day get_section [OF sec(1)] and_then.simps
      condition_text [OF sec(2)] py_get_none_dict
    by (simp add: dict_display_def day_spec_def Let_def)
qed

lemma alert_summary_spec:
  assumes "is_dict a"
  shows "alert_summary a = Inr (alert_spec a)"
proof -
  from assms obtain d where "a = PDict d" by (cases a) simp_all
  then show ?thesis
    by (simp add: alert_summary_def py_get_none_dict dict_display_def alert_spec_def)
qed

lemma for_each_map:
  assumes "list_all (\<lambda>x. f x = Inr (g x)) xs"
  shows "for_each f xs = Inr (map g xs)"
  using assms by (induction xs) simp_all

lemma weather_summary_refines:
  assumes "conforms data"
  shows "weather_summary env data = Inr (summary_spec (py_repr env) (members data))"
proof -
  from assms obtain d where data: "data = PDict d"
    and cur: "where_present d ''current'' (dict_where conforms_conditions)"
    and fc: "where_present d ''forecast''
        (dict_where (\<lambda>f. where_present f ''forecastday'' (list_where conforms_day)))"
    and loc: "where_present d ''location'' is_dict"
    and al: "where_present d ''alerts''
        (dict_where (\<lambda>a. where_present a ''alert'' (list_where is_dict)))"
    by (cases data) (simp_all add: conforms_def dict_where_def)
  note cur' = section_ok [OF cur conforms_conditions_Nil]
  have fc': "where_present d ''forecast'' is_dict"
    "where_present (section_of d ''forecast'') ''forecastday'' (list_where conforms_day)"
    by (rule section_ok [OF fc]; simp add: where_present_def)+
  have al': "where_present d ''alerts'' is_dict"
    "where_present (section_of d ''alerts'') ''alert'' (list_where is_dict)"
    by (rule section_ok [OF al]; simp add: where_present_def)+
  note days = get_listing [OF fc'(2)]
  note alerts = get_listing [OF al'(2)]
  have days_ok: "for_each day_summary (listing_of (section_of d ''forecast'') ''forecastday'') =
      Inr (map day_spec (listing_of (section_of d ''forecast'') ''forecastday''))"
    by (rule for_each_map) (use days(2) in \<open>simp add: list_all_iff day_summary_spec\<close>)
  have alerts_ok: "for_each alert_summary (listing_of (section_of d ''alerts'') ''alert'') =
      Inr (map alert_spec (listing_of (section_of d ''alerts'') ''alert''))"
    by (rule for_each_map) (use alerts(2) in \<open>simp add: list_all_iff alert_summary_spec\<close>)
  show ?thesis
    unfolding weather_summary_def data get_section [OF cur'(1)] get_section [OF fc'(1)]
      get_section [OF loc] get_section [OF al'(1)] and_then.simps days(1) alerts(1)
      py_get_none_dict current_summary_spec [OF cur'(2)] py_iter.simps days_ok alerts_ok
    by (simp add: dict_display_def summary_spec_def location_label_def split: list.splits)
qed

lemma conforms_paris: "conforms paris_weather"
  by (simp add: paris_weather_def conforms_def dict_where_def where_present_def
      conforms_conditions_def list_where_def conforms_day_def)

lemma summary_spec_paris: "summary_spec rp (members paris_weather) = paris_summary"
  by (simp add: paris_weather_def summary_spec_def section_of_def listing_of_def field_def
      location_label_def current_spec_def day_spec_def paris_summary_def)

section \<open>Runs with the sample collaborators\<close>

lemma fetch_paris:
  assumes "WEATHER_API_KEY w \<noteq> []"
  shows "fetch_weather_data (sample_env a b (JsonBody paris_weather)) w place =
    (Inr paris_summary, logged (Call_requests_get (WEATHER_API_KEY w) place) w)"
proof -
  have "weather_summary (sample_env a b (JsonBody paris_weather)) paris_weather =
      Inr paris_summary"
    by (simp add: weather_summary_refines [OF conforms_paris] summary_spec_paris)
  then show ?thesis
    using assms by (simp add: fetch_weather_data_def) (simp add: sample_env_def)
qed

lemma paris_summary_nonempty: "paris_summary \<noteq> []"
  by (simp add: paris_summary_def)

lemma get_llm_sample:
  "GROQ_API_KEY w \<noteq> [] \<Longrightarrow>
     get_llm (sample_env a b h) w = (Inr (GROQ_API_KEY w), logged (Call_ChatGroq (GROQ_API_KEY w)) w)"
  by (simp add: get_llm_def sample_env_def)

lemma analyze_sample:
  assumes "GROQ_API_KEY w \<noteq> []" and "weather_data s \<noteq> []"
  shows "analyze_and_recommend_node (sample_env a b h) w s =
    ((case b of
        Inl e \<Rightarrow> s\<lparr>error := ''Recommendation generation error: '' @ e\<rparr>
      | Inr content \<Rightarrow>
          s\<lparr>recommendations := content,
            messages := messages s @ [AIMessage ''Generated recommendations'']\<rparr>),
     logged (Call_invoke (GROQ_API_KEY w)
               [SystemMessage recommend_system_prompt,
                HumanMessage (recommend_request (user_query s) ''{}'')])
       (logged (Call_ChatGroq (GROQ_API_KEY w)) w))"
proof -
  have "llm_invoke (sample_env a b h) k [SystemMessage recommend_system_prompt, m] = b" for k m
    by (simp add: sample_env_def scripted_recommend)
  moreover have "json_dumps (sample_env a b h) d = ''{}''" for d
    by (simp add: sample_env_def)
  ultimately show ?thesis
    using assms
    by (cases b) (simp_all add: analyze_and_recommend_node_def get_llm_sample invoke_llm_def
        logged_def)
qed

lemma fetch_node_paris:
  assumes "WEATHER_API_KEY w \<noteq> []" and "location s = ''Paris''"
  shows "fetch_weather_node (sample_env a b (JsonBody paris_weather)) w s =
    (s\<lparr>weather_data := paris_summary,
       messages := messages s @ [AIMessage ''Fetched weather data for Paris, France'']\<rparr>,
     logged (Call_requests_get (WEATHER_API_KEY w) ''Paris'') w)"
  using assms by (simp add: fetch_weather_node_def fetch_paris) (simp add: paris_summary_def)

lemma run_paris:
  "invoke create_agent_graph (sample_env (Inr ''Paris'') b (JsonBody paris_weather)) sample_world
       (initial_state q) =
     Inr (case b of
            Inl e \<Rightarrow>
              (initial_state q)
                \<lparr>location := ''Paris'',
                  weather_data := paris_summary,
                  messages := [AIMessage ''Extracted location: Paris'',
                               AIMessage ''Fetched weather data for Paris, France''],
                  error := ''Recommendation generation error: '' @ e\<rparr>
          | Inr content \<Rightarrow>
              (initial_state q)
                \<lparr>location := ''Paris'',
                  weather_data := paris_summary,
                  messages := [AIMessage ''Extracted location: Paris'',
                               AIMessage ''Fetched weather data for Paris, France'',
                               AIMessage ''Generated recommendations''],
                  recommendations := content\<rparr>,
          sample_world
            \<lparr>calls :=
               [Call_ChatGroq ''gsk'',
                Call_invoke ''gsk'' [SystemMessage extract_system_prompt, HumanMessage q],
                Call_requests_get ''wk'' ''Paris'',
                Call_ChatGroq ''gsk'',
                Call_invoke ''gsk''
                  [SystemMessage recommend_system_prompt,
                   HumanMessage (recommend_request q ''{}'')]]\<rparr>,
          [''extract_location'', ''fetch_weather'', ''analyze''])"
proof -
  let ?env = "sample_env (Inr ''Paris'') b (JsonBody paris_weather)"
  let ?s1 = "(initial_state q :: int AgentState)\<lparr>location := ''Paris'',
      messages := [AIMessage ''Extracted location: Paris'']\<rparr>"
  let ?w1 = "sample_world\<lparr>calls := [Call_ChatGroq ''gsk'',
      Call_invoke ''gsk'' [SystemMessage extract_system_prompt, HumanMessage q]]\<rparr>"
  let ?s2 = "?s1\<lparr>weather_data := paris_summary,
      messages := messages ?s1 @ [AIMessage ''Fetched weather data for Paris, France'']\<rparr>"
  let ?w2 = "logged (Call_requests_get (WEATHER_API_KEY ?w1) ''Paris'') ?w1"
  have s1: "extract_location_node ?env sample_world (initial_state q) = (?s1, ?w1)"
    by (simp add: extract_sample strip_Paris)
  have s2: "fetch_weather_node ?env ?w1 ?s1 = (?s2, ?w2)"
    by (rule fetch_node_paris) (simp_all add: sample_world_def)
  have s3: "analyze_and_recommend_node ?env ?w2 ?s2 =
    ((case b of
        Inl e \<Rightarrow> ?s2\<lparr>error := ''Recommendation generation error: '' @ e\<rparr>
      | Inr content \<Rightarrow>
          ?s2\<lparr>recommendations := content,
            messages := messages ?s2 @ [AIMessage ''Generated recommendations'']\<rparr>),
     logged (Call_invoke (GROQ_API_KEY ?w2)
               [SystemMessage recommend_system_prompt,
                HumanMessage (recommend_request (user_query ?s2) ''{}'')])
       (logged (Call_ChatGroq (GROQ_API_KEY ?w2)) ?w2))"
    by (rule analyze_sample) (simp_all add: sample_world_def logged_def paris_summary_nonempty)
  have e1: "error ?s1 = []" and e2: "error ?s2 = []"
    by (simp_all add: initial_state_fields)
  show ?thesis
    unfolding invoke_workflow s1 prod.case e1 s2 e2 s3
    by (cases b) (simp_all add: logged_def sample_world_def initial_state_def)
qed

lemma run_timeout:
  "invoke create_agent_graph timeout_env sample_world (initial_state q) =
     Inr (error_handler_node
            ((initial_state q)
               \<lparr>location := ''Paris'',
                 messages := [AIMessage ''Extracted location: Paris''],
                 error := ''Weather API error: Read timed out.''\<rparr>),
          sample_world
            \<lparr>calls :=
               [Call_ChatGroq ''gsk'',
                Call_invoke ''gsk'' [SystemMessage extract_system_prompt, HumanMessage q],
                Call_requests_get ''wk'' ''Paris'']\<rparr>,
          [''extract_location'', ''fetch_weather'', ''error''])"
proof -
  let ?s1 = "(initial_state q :: int AgentState)\<lparr>location := ''Paris'',
      messages := [AIMessage ''Extracted location: Paris'']\<rparr>"
  let ?w1 = "sample_world\<lparr>calls := [Call_ChatGroq ''gsk'',
      Call_invoke ''gsk'' [SystemMessage extract_system_prompt, HumanMessage q]]\<rparr>"
  have s1: "extract_location_node timeout_env sample_world (initial_state q) = (?s1, ?w1)"
    by (simp add: timeout_env_def extract_sample strip_Paris)
  have s2: "fetch_weather_node timeout_env ?w1 ?s1 =
      (?s1\<lparr>error := ''Weather API error: Read timed out.''\<rparr>,
       logged (Call_requests_get ''wk'' ''Paris'') ?w1)"
    by (simp add: fetch_weather_node_def fetch_timeout sample_world_def)
  have e1: "error ?s1 = []"
    by (simp add: initial_state_fields)
  show ?thesis
    unfolding invoke_workflow s1 prod.case e1 s2
    by (simp add: logged_def sample_world_def)
qed

lemma analyze_success:
  assumes "analyze_and_recommend_node env w s = (s', w')" and "error s = []" and "error s' = []"
  shows "llm_invoke env (GROQ_API_KEY w)
      [SystemMessage recommend_system_prompt,
       HumanMessage (recommend_request (user_query s) (json_dumps env (weather_data s)))] =
      Inr (recommendations s')"
    and "weather_data s' = weather_data s"
  using assms
  by (auto simp: analyze_and_recommend_node_def get_llm_def invoke_llm_def
      split: if_splits option.splits sum.splits)

section \<open>What a run does to the world\<close>

lemma extends_refl: "extends w w"
  by (simp add: extends_def)

lemma extends_logged:
  assumes "extends w w'" and "uses_keys w c"
  shows "extends w (logged c w')"
proof -
  from assms(1) have len: "length (calls w) \<le> length (calls w')"
    by (metis extends_def length_take min.cobounded2 min.commute)
  with assms show ?thesis
    by (simp add: extends_def logged_def)
qed

lemma extends_trans:
  assumes "extends w w'" and "extends w' w''"
  shows "extends w w''"
proof -
  obtain new where new: "calls w' = calls w @ new" "list_all (uses_keys w) new"
    using assms(1) by (metis append_take_drop_id extends_def)
  obtain new' where new': "calls w'' = calls w' @ new'" "list_all (uses_keys w') new'"
    using assms(2) by (metis append_take_drop_id extends_def)
  have "uses_keys w' = uses_keys w"
    using assms(1) by (auto simp: extends_def uses_keys_def fun_eq_iff split: call.splits)
  with new new' assms show ?thesis
    by (simp add: extends_def)
qed

lemma get_llm_extends: "extends w (snd (get_llm env w))"
  by (simp add: get_llm_def extends_logged extends_refl uses_keys_def)

lemma extract_extends: "extends w (snd (extract_location_node env w s))"
  by (auto simp: extract_location_node_def get_llm_def invoke_llm_def uses_keys_def
      intro!: extends_logged extends_refl split: sum.splits option.splits)

lemma fetch_data_extends: "extends w (snd (fetch_weather_data env w place))"
  by (simp add: fetch_weather_data_def extends_logged extends_refl uses_keys_def)

lemma fetch_extends: "extends w (snd (fetch_weather_node env w s))"
  using fetch_data_extends [of w env "location s"]
  by (auto simp: fetch_weather_node_def extends_refl split: prod.splits sum.splits)

lemma analyze_extends: "extends w (snd (analyze_and_recommend_node env w s))"
  by (auto simp: analyze_and_recommend_node_def get_llm_def invoke_llm_def uses_keys_def
      intro!: extends_logged extends_refl split: sum.splits option.splits)

lemma invoke_extends:
  "case invoke create_agent_graph env w s of
     Inr (final, w', path) \<Rightarrow> extends w w'
   | Inl (e, w') \<Rightarrow> False"
proof -
  obtain s1 w1 where s1: "extract_location_node env w s = (s1, w1)"
    by (cases "extract_location_node env w s")
  obtain s2 w2 where s2: "fetch_weather_node env w1 s1 = (s2, w2)"
    by (cases "fetch_weather_node env w1 s1")
  obtain s3 w3 where s3: "analyze_and_recommend_node env w2 s2 = (s3, w3)"
    by (cases "analyze_and_recommend_node env w2 s2")
  have 1: "extends w w1"
    using extract_extends [of w env s] s1 by simp
  have "extends w1 w2"
    using fetch_extends [of w1 env s1] s2 by simp
  with 1 have 2: "extends w w2"
    by (rule extends_trans)
  have "extends w2 w3"
    using analyze_extends [of w2 env s2] s3 by simp
  with 2 have 3: "extends w w3"
    by (rule extends_trans)
  show ?thesis
    unfolding invoke_workflow s1 using s2 s3 1 2 3 by simp
qed

lemma process_query_extends:
  "extends (set_api_keys g k w) (snd (process_query env w q g k))"
  using invoke_extends [where env = env and w = "set_api_keys g k w" and s = "initial_state q"]
  by (auto simp: process_query_def Let_def extends_refl split: sum.splits prod.splits)

lemma extract_same_keys:
  assumes "same_keys w v"
  shows "fst (extract_location_node env w s) = fst (extract_location_node env v s)"
    and "same_keys (snd (extract_location_node env w s)) (snd (extract_location_node env v s))"
  using assms
  by (auto simp: same_keys_def extract_location_node_def get_llm_def invoke_llm_def logged_def
      split: sum.splits option.splits)

lemma fetch_same_keys:
  assumes "same_keys w v"
  shows "fst (fetch_weather_node env w s) = fst (fetch_weather_node env v s)"
    and "same_keys (snd (fetch_weather_node env w s)) (snd (fetch_weather_node env v s))"
  using assms
  by (auto simp: same_keys_def fetch_weather_node_def fetch_weather_data_def logged_def
      split: sum.splits http_result.splits)

lemma analyze_same_keys:
  assumes "same_keys w v"
  shows "fst (analyze_and_recommend_node env w s) = fst (analyze_and_recommend_node env v s)"
  using assms
  by (auto simp: same_keys_def analyze_and_recommend_node_def get_llm_def invoke_llm_def
      logged_def split: sum.splits option.splits)

lemma invoke_final:
  "invoke create_agent_graph env w s =
     Inr (let x1 = extract_location_node env w s in
          if error (fst x1) \<noteq> [] then
            (error_handler_node (fst x1), snd x1, [''extract_location'', ''error''])
          else
            let x2 = fetch_weather_node env (snd x1) (fst x1) in
            if error (fst x2) \<noteq> [] then
              (error_handler_node (fst x2), snd x2,
               [''extract_location'', ''fetch_weather'', ''error''])
            else
              let x3 = analyze_and_recommend_node env (snd x2) (fst x2) in
              (fst x3, snd x3, [''extract_location'', ''fetch_weather'', ''analyze'']))"
  unfolding invoke_workflow by (simp add: Let_def split: prod.splits)

lemma invoke_same_keys:
  assumes "same_keys w v"
  shows "(case invoke create_agent_graph env w s of Inr (final, w', path) \<Rightarrow> Some final
          | Inl e \<Rightarrow> None) =
         (case invoke create_agent_graph env v s of Inr (final, w', path) \<Rightarrow> Some final
          | Inl e \<Rightarrow> None)"
proof -
  note x1 = extract_same_keys [OF assms, of env s]
  note x2 = fetch_same_keys [OF x1(2), of env "fst (extract_location_node env w s)"]
  note x3 = analyze_same_keys [OF x2(2), of env]
  show ?thesis
    unfolding invoke_final using x1(1) x2(1) x3 by (simp add: Let_def)
qed

lemma process_query_same_keys:
  assumes keys: "same_keys (set_api_keys g k w) (set_api_keys g k v)"
  shows "fst (process_query env w q g k) = fst (process_query env v q g k)"
proof -
  have inr: "\<exists>x. invoke create_agent_graph env u s = Inr x" for u s
    unfolding invoke_final by (rule exI) (rule refl)
  from keys have "GROQ_API_KEY (set_api_keys g k w) = GROQ_API_KEY (set_api_keys g k v)"
    "WEATHER_API_KEY (set_api_keys g k w) = WEATHER_API_KEY (set_api_keys g k v)"
    by (simp_all add: same_keys_def)
  then show ?thesis
    using invoke_same_keys [OF keys, of env "initial_state q"]
      inr [of "set_api_keys g k w" "initial_state q"]
      inr [of "set_api_keys g k v" "initial_state q"]
    by (auto simp: process_query_def Let_def split: sum.splits prod.splits)
qed

lemma process_query_keys:
  "GROQ_API_KEY (snd (process_query env w q g k)) = (if g \<noteq> [] then g else GROQ_API_KEY w)"
  "WEATHER_API_KEY (snd (process_query env w q g k)) =
     (if k \<noteq> [] then k else WEATHER_API_KEY w)"
  using process_query_extends [of g k w env q]
  by (simp_all add: extends_def set_api_keys_def)

section \<open>The weather client without a key\<close>

text \<open>
  Claim C9. Whatever the location, when the weather key is the empty string
  \<open>fetch_weather_data\<close> returns the dictionary \<^verbatim>\<open>{"error": "WEATHER_API_KEY not set"}\<close>
  at once: the world it leaves is the world it found, so no request was logged.
\<close>

theorem C9_missing_weather_key:
  "WEATHER_API_KEY w = [] \<Longrightarrow>
     fetch_weather_data env w place = (Inl ''WEATHER_API_KEY not set'', w)"
  by (simp add: fetch_weather_data_def)

theorem C9_missing_weather_key_witness:
  "WEATHER_API_KEY (sample_world\<lparr>WEATHER_API_KEY := []\<rparr>) = [] \<and>
   fetch_weather_data paris_env (sample_world\<lparr>WEATHER_API_KEY := []\<rparr>) ''Paris'' =
     (Inl ''WEATHER_API_KEY not set'', sample_world\<lparr>WEATHER_API_KEY := []\<rparr>) \<and>
   calls (snd (fetch_weather_data paris_env (sample_world\<lparr>WEATHER_API_KEY := []\<rparr>) ''Paris'')) = []"
proof -
  have key: "WEATHER_API_KEY (sample_world\<lparr>WEATHER_API_KEY := []\<rparr>) = []"
    by simp
  show ?thesis
    using C9_missing_weather_key [OF key, of paris_env "''Paris''"]
    by (simp add: sample_world_def)
qed

section \<open>The routing predicates\<close>

text \<open>
  Claim C5. Each routing predicate is a function of the state alone and returns a label
  without touching the state. It returns the error label exactly when the \<open>error\<close> field
  is not empty, and otherwise its default successor (\<open>fetch_weather\<close> after the location
  extraction, \<open>analyze\<close> after the weather fetch); so there is no third label. Changing
  any field other than \<open>error\<close> does not change the label.
\<close>

theorem C5_routing:
  "(should_continue s = ''error'') = (error s \<noteq> []) \<and>
   (should_continue s = ''fetch_weather'') = (error s = []) \<and>
   (after_weather_fetch s = ''error'') = (error s \<noteq> []) \<and>
   (after_weather_fetch s = ''analyze'') = (error s = []) \<and>
   should_continue
     (s\<lparr>messages := m, user_query := q, location := l, weather_data := d,
        recommendations := r\<rparr>) = should_continue s \<and>
   after_weather_fetch
     (s\<lparr>messages := m, user_query := q, location := l, weather_data := d,
        recommendations := r\<rparr>) = after_weather_fetch s"
  by (simp add: should_continue_def after_weather_fetch_def)

section \<open>A query without a location\<close>

text \<open>
  Claim C3. In every state whose \<open>location\<close> is the literal \<^verbatim>\<open>unknown\<close> or empty, the
  weather stage writes the guidance message into \<open>error\<close> and returns with the world
  untouched, so the weather client was not called. From there the workflow goes to the
  error stage and ends, again with the world untouched: no further external call. The
  last part is the whole pipeline, when the extraction stage left such a location.
\<close>

theorem C3_no_location:
  assumes "location s = ''unknown'' \<or> location s = []"
  shows
    "fetch_weather_node env w s =
       (s\<lparr>error := ''No location specified. Please include a city or location in your query.''\<rparr>, w) \<and>
     run (Suc (Suc k)) create_agent_graph env ''fetch_weather'' (s, w, path) =
       Inr (error_handler_node
              (s\<lparr>error := ''No location specified. Please include a city or location in your query.''\<rparr>),
            w, path @ [''fetch_weather'', ''error'']) \<and>
     (extract_location_node env w0 s0 = (s, w) \<and> error s = [] \<longrightarrow>
        invoke create_agent_graph env w0 s0 =
          Inr (error_handler_node
                 (s\<lparr>error := ''No location specified. Please include a city or location in your query.''\<rparr>),
               w, [''extract_location'', ''fetch_weather'', ''error'']))"
proof -
  let ?s' = "s\<lparr>error := ''No location specified. Please include a city or location in your query.''\<rparr>"
  have node: "fetch_weather_node env w s = (?s', w)"
    using assms by (auto simp: fetch_weather_node_def)
  have err: "error ?s' \<noteq> []"
    by simp
  have "run (Suc (Suc k)) create_agent_graph env ''fetch_weather'' (s, w, path) =
      Inr (error_handler_node ?s', w, path @ [''fetch_weather'', ''error''])"
    unfolding run_fetch node using err by simp
  moreover have "invoke create_agent_graph env w0 s0 =
      Inr (error_handler_node ?s', w, [''extract_location'', ''fetch_weather'', ''error''])"
    if "extract_location_node env w0 s0 = (s, w)" "error s = []"
    unfolding invoke_workflow using that node err by simp
  ultimately show ?thesis
    using node by blast
qed

theorem C3_no_location_witness:
  "location (fst (extract_location_node no_location_env sample_world (initial_state vague_query))) =
     ''unknown'' \<and>
   error (fst (extract_location_node no_location_env sample_world (initial_state vague_query))) = [] \<and>
   invoke create_agent_graph no_location_env sample_world (initial_state vague_query) =
     Inr (error_handler_node
            ((fst (extract_location_node no_location_env sample_world (initial_state vague_query)))
               \<lparr>error := ''No location specified. Please include a city or location in your query.''\<rparr>),
          snd (extract_location_node no_location_env sample_world (initial_state vague_query)),
          [''extract_location'', ''fetch_weather'', ''error'']) \<and>
   calls (snd (extract_location_node no_location_env sample_world (initial_state vague_query))) =
     [Call_ChatGroq ''gsk'',
      Call_invoke ''gsk'' [SystemMessage extract_system_prompt, HumanMessage vague_query]]"
proof -
  let ?x = "extract_location_node no_location_env sample_world (initial_state vague_query)"
  have loc: "location (fst ?x) = ''unknown''" and err: "error (fst ?x) = []"
    and log: "calls (snd ?x) = [Call_ChatGroq ''gsk'',
      Call_invoke ''gsk'' [SystemMessage extract_system_prompt, HumanMessage vague_query]]"
    by (simp_all add: no_location_env_def extract_sample strip_unknown initial_state_fields)
  have hyp: "location (fst ?x) = ''unknown'' \<or> location (fst ?x) = []"
    using loc by simp
  show ?thesis
    using C3_no_location [OF hyp, of no_location_env "snd ?x" 0 "[]" sample_world
        "initial_state vague_query"] loc err log
    by simp
qed

section \<open>A failure of the weather client\<close>

text \<open>
  Claim C4. When the extraction stage succeeds with a location that is neither empty nor
  \<^verbatim>\<open>unknown\<close> and the weather client reports the failure \<open>msg\<close>, the weather stage writes
  \<open>msg\<close> into \<open>error\<close> unchanged, the workflow runs the error stage and never the
  recommendation stage, the world at the end is the one the weather client left, and the
  final state's \<open>error\<close> is \<open>msg\<close>, which the final text quotes.
\<close>

theorem C4_weather_failure:
  assumes "extract_location_node env w0 s0 = (s1, w1)"
    and "error s1 = []"
    and "location s1 \<noteq> ''unknown''" and "location s1 \<noteq> []"
    and "fetch_weather_data env w1 (location s1) = (Inl msg, w2)"
  shows
    "fetch_weather_node env w1 s1 = (s1\<lparr>error := msg\<rparr>, w2) \<and>
     (\<exists>final. invoke create_agent_graph env w0 s0 =
         Inr (final, w2, [''extract_location'', ''fetch_weather'', ''error'']) \<and>
       error final = msg \<and>
       recommendations final =
         warning_sign @ '' **Error**: '' @ msg @ [CHR 0x0A, CHR 0x0A] @
         ''Please try again with a different query or check your API keys.'')"
proof -
  have node: "fetch_weather_node env w1 s1 = (s1\<lparr>error := msg\<rparr>, w2)"
    using assms(3-5) by (simp add: fetch_weather_node_def)
  have "msg \<noteq> []"
    using assms(5) by (rule fetch_weather_data_error_nonempty)
  then have "invoke create_agent_graph env w0 s0 =
      Inr (error_handler_node (s1\<lparr>error := msg\<rparr>), w2,
           [''extract_location'', ''fetch_weather'', ''error''])"
    unfolding invoke_workflow using assms(1,2) node by simp
  then show ?thesis
    using node by (simp add: error_handler_node_def)
qed


theorem C4_weather_failure_witness:
  "error (fst (extract_location_node timeout_env sample_world (initial_state paris_query))) = [] \<and>
   location (fst (extract_location_node timeout_env sample_world (initial_state paris_query))) =
     ''Paris'' \<and>
   (\<exists>final w2.
      invoke create_agent_graph timeout_env sample_world (initial_state paris_query) =
        Inr (final, w2, [''extract_location'', ''fetch_weather'', ''error'']) \<and>
      error final = ''Weather API error: Read timed out.'' \<and>
      recommendations final =
        warning_sign @ '' **Error**: Weather API error: Read timed out.'' @ [CHR 0x0A, CHR 0x0A] @
        ''Please try again with a different query or check your API keys.'')"
proof -
  let ?x = "extract_location_node timeout_env sample_world (initial_state paris_query)"
  let ?w2 = "logged (Call_requests_get ''wk'' ''Paris'') (snd ?x)"
  have err: "error (fst ?x) = []" and loc: "location (fst ?x) = ''Paris''"
    and key: "WEATHER_API_KEY (snd ?x) = ''wk''"
    by (simp_all add: timeout_env_def extract_sample strip_Paris initial_state_fields)
      (simp add: sample_world_def)
  have fetch: "fetch_weather_data timeout_env (snd ?x) (location (fst ?x)) =
      (Inl ''Weather API error: Read timed out.'', ?w2)"
    by (simp add: loc fetch_timeout key)
  have "location (fst ?x) \<noteq> ''unknown''" "location (fst ?x) \<noteq> []"
    by (simp_all add: loc)
  from C4_weather_failure [OF prod.collapse [symmetric] err this fetch]
  show ?thesis
    using err loc by auto
qed

section \<open>Missing fields of the provider's answer\<close>

text \<open>
  Claim C6, as the specification states it: every missing provider field becomes an
  empty or absent entry (\<^verbatim>\<open>None\<close>) of the summary. On the empty answer, in which every
  field is missing, all copied entries are \<^verbatim>\<open>None\<close>, the forecast is empty and the alerts
  are absent, but the \<open>location\<close> entry is the text \<^verbatim>\<open>None, None\<close>: the missing name and
  country were formatted into the label.
\<close>

theorem C6_missing_name_counterexample:
  "weather_summary paris_env (PDict []) =
     Inr [(''location'', PStr ''None, None''),
          (''local_time'', PNone),
          (''current'',
             PDict [(''temp_c'', PNone), (''temp_f'', PNone), (''condition'', PNone),
                    (''wind_kph'', PNone), (''wind_mph'', PNone), (''humidity'', PNone),
                    (''feelslike_c'', PNone), (''feelslike_f'', PNone), (''uv'', PNone),
                    (''visibility_km'', PNone)]),
          (''forecast'', PList [])]"
  by (simp add: weather_summary_def current_summary_def dict_display_def py_get_none_def)

text \<open>
  Claim C6, amended. For every answer that is a partial copy of the provider's schema
  the normalisation raises nothing and yields the summary of the specification: each
  copied field is the provider's value unchanged when present (numbers included) and
  \<^verbatim>\<open>None\<close> when missing, a missing forecast is the empty list, missing or empty alerts
  leave no \<open>alerts\<close> entry, and the location label is the name and the country as
  formatted text, where a missing one reads \<^verbatim>\<open>None\<close>.
\<close>

theorem C6_normalisation:
  assumes "conforms data"
  shows "weather_summary env data = Inr (summary_spec (py_repr env) (members data))"
  using assms by (rule weather_summary_refines)

theorem C6_normalisation_witness:
  "conforms paris_weather \<and> weather_summary paris_env paris_weather = Inr paris_summary"
  using C6_normalisation [OF conforms_paris, of paris_env] conforms_paris
  by (simp add: summary_spec_paris)

section \<open>A failure of the recommendation stage\<close>

text \<open>
  Claim C1 says that whenever a stage writes a non-empty \<open>error\<close> the workflow goes to the
  error stage and the caller receives that stage's message, also when the failure is in
  the recommendation stage. The graph sends \<open>analyze\<close> straight to \<open>END\<close>, unlike the two
  stages before it. With a model that answers the extraction request and fails on the
  recommendation request, the recommendation stage records its error, the error stage
  does not run, and the caller receives the empty text.
\<close>

theorem C1_recommendation_failure:
  "(case invoke create_agent_graph rate_limited_env sample_world (initial_state paris_query) of
      Inr (final, w, path) \<Rightarrow>
        error final = ''Recommendation generation error: Rate limit reached'' \<and>
        recommendations final = [] \<and>
        path = [''extract_location'', ''fetch_weather'', ''analyze'']
    | Inl e \<Rightarrow> False) \<and>
   fst (process_query rate_limited_env sample_world paris_query [] []) = []"
  by (simp add: rate_limited_env_def run_paris process_query_def set_api_keys_def
      strip_paris_query initial_state_fields)
    (simp add: sample_world_def)

section \<open>The two fields at the end of a run\<close>

text \<open>
  Claim C2, as the specification states it: at the end of a run exactly one of
  \<open>recommendations\<close> and \<open>error\<close> is non-empty. When the weather request times out both
  are non-empty, since the error stage writes its message into \<open>recommendations\<close> and
  leaves \<open>error\<close> set; when the model returns an empty recommendation both are empty.
\<close>

theorem C2_both_or_neither_counterexample:
  "(case invoke create_agent_graph timeout_env sample_world (initial_state paris_query) of
      Inr (final, w, path) \<Rightarrow>
        error final = ''Weather API error: Read timed out.'' \<and>
        recommendations final =
          warning_sign @ '' **Error**: Weather API error: Read timed out.'' @
          [CHR 0x0A, CHR 0x0A] @
          ''Please try again with a different query or check your API keys.''
    | Inl e \<Rightarrow> False) \<and>
   (case invoke create_agent_graph silent_env sample_world (initial_state paris_query) of
      Inr (final, w, path) \<Rightarrow> error final = [] \<and> recommendations final = []
    | Inl e \<Rightarrow> False)"
  by (simp add: run_timeout silent_env_def run_paris error_handler_node_def
      initial_state_fields)

text \<open>
  Claim C2, amended. Every run from the initial state of a query completes. If the error
  stage ran, \<open>error\<close> is non-empty and \<open>recommendations\<close> is the error stage's message
  built from it, so both fields are non-empty. If \<open>error\<close> is empty at the end, the run
  went through the three stages and \<open>recommendations\<close> is exactly the text the model
  returned for the recommendation request, which may be empty.
\<close>

theorem C2_terminal_fields:
  "\<exists>final w' path.
     invoke create_agent_graph env w (initial_state q) = Inr (final, w', path) \<and>
     (''error'' \<in> set path \<longrightarrow>
        error final \<noteq> [] \<and>
        recommendations final =
          warning_sign @ '' **Error**: '' @ error final @ [CHR 0x0A, CHR 0x0A] @
          ''Please try again with a different query or check your API keys.'') \<and>
     (error final = [] \<longrightarrow>
        path = [''extract_location'', ''fetch_weather'', ''analyze''] \<and>
        llm_invoke env (GROQ_API_KEY w)
          [SystemMessage recommend_system_prompt,
           HumanMessage (recommend_request q (json_dumps env (weather_data final)))] =
          Inr (recommendations final))"
proof -
  obtain s1 w1 where s1: "extract_location_node env w (initial_state q) = (s1, w1)"
    by (cases "extract_location_node env w (initial_state q)")
  obtain s2 w2 where s2: "fetch_weather_node env w1 s1 = (s2, w2)"
    by (cases "fetch_weather_node env w1 s1")
  obtain s3 w3 where s3: "analyze_and_recommend_node env w2 s2 = (s3, w3)"
    by (cases "analyze_and_recommend_node env w2 s2")
  note keep1 = extract_location_node_keeps [OF s1]
  note keep2 = fetch_weather_node_keeps [OF s2]
  show ?thesis
  proof (cases "error s1 = []")
    case False
    then show ?thesis
      unfolding invoke_workflow s1 by (simp add: error_handler_node_def)
  next
    case e1: True
    show ?thesis
    proof (cases "error s2 = []")
      case False
      then show ?thesis
        unfolding invoke_workflow s1 using e1 s2 by (simp add: error_handler_node_def)
    next
      case e2: True
      have run: "invoke create_agent_graph env w (initial_state q) =
          Inr (s3, w3, [''extract_location'', ''fetch_weather'', ''analyze''])"
        unfolding invoke_workflow s1 using e1 s2 e2 s3 by simp
      have "llm_invoke env (GROQ_API_KEY w)
          [SystemMessage recommend_system_prompt,
           HumanMessage (recommend_request q (json_dumps env (weather_data s3)))] =
          Inr (recommendations s3)" if "error s3 = []"
        using analyze_success [OF s3 e2 that] keep1 keep2
        by (simp add: initial_state_fields)
      with run show ?thesis
        by simp
    qed
  qed
qed

theorem C2_terminal_fields_witness:
  "(\<exists>final w' path.
      invoke create_agent_graph timeout_env sample_world (initial_state paris_query) =
        Inr (final, w', path) \<and>
      ''error'' \<in> set path \<and> error final = ''Weather API error: Read timed out.'' \<and>
      recommendations final =
        warning_sign @ '' **Error**: Weather API error: Read timed out.'' @
        [CHR 0x0A, CHR 0x0A] @
        ''Please try again with a different query or check your API keys.'') \<and>
   (\<exists>final w' path.
      invoke create_agent_graph paris_env sample_world (initial_state paris_query) =
        Inr (final, w', path) \<and>
      error final = [] \<and> path = [''extract_location'', ''fetch_weather'', ''analyze''] \<and>
      recommendations final = ''Take an umbrella.'')"
proof -
  have reply: "llm_invoke paris_env k [SystemMessage recommend_system_prompt, m] =
      Inr ''Take an umbrella.''" for k m
    by (simp add: paris_env_def sample_env_def scripted_recommend)
  have "?thesis"
    using C2_terminal_fields [of timeout_env sample_world paris_query]
      C2_terminal_fields [of paris_env sample_world paris_query]
    by (auto simp: run_timeout run_paris paris_env_def error_handler_node_def
        initial_state_fields reply [unfolded paris_env_def])
  then show ?thesis .
qed

section \<open>The recommendation stage\<close>

text \<open>
  Claim C7, as the specification states it: with empty \<open>weather_data\<close> the recommendation
  stage sets \<open>error\<close> to \<^verbatim>\<open>No weather data available\<close>. The stage obtains the client
  before it looks at the weather data, so with an empty Groq key the error it records is
  the one of the missing key.
\<close>

theorem C7_missing_key_counterexample:
  "weather_data (initial_state paris_query :: int AgentState) = [] \<and>
   analyze_and_recommend_node paris_env (sample_world\<lparr>GROQ_API_KEY := []\<rparr>)
       (initial_state paris_query) =
     ((initial_state paris_query)
        \<lparr>error := ''Recommendation generation error: GROQ_API_KEY not set. Please set it as an environment variable.''\<rparr>,
      sample_world\<lparr>GROQ_API_KEY := []\<rparr>)"
  by (simp add: analyze_and_recommend_node_def get_llm_def initial_state_fields)

text \<open>
  Claim C7, amended. When the client can be obtained (the Groq key is not empty and the
  construction succeeds): with empty \<open>weather_data\<close> the stage sets \<open>error\<close> to exactly
  \<^verbatim>\<open>No weather data available\<close> and the only call it makes is the construction of the
  client, no completion; with non-empty \<open>weather_data\<close> and a completion that succeeds,
  the text returned is stored in \<open>recommendations\<close> as it is.
\<close>

theorem C7_recommendation_stage:
  assumes "GROQ_API_KEY w \<noteq> []" and "ChatGroq env (GROQ_API_KEY w) = None"
  shows
    "(weather_data s = [] \<longrightarrow>
        analyze_and_recommend_node env w s =
          (s\<lparr>error := ''No weather data available''\<rparr>,
           logged (Call_ChatGroq (GROQ_API_KEY w)) w)) \<and>
     (weather_data s \<noteq> [] \<and>
      llm_invoke env (GROQ_API_KEY w)
        [SystemMessage recommend_system_prompt,
         HumanMessage (recommend_request (user_query s) (json_dumps env (weather_data s)))] =
        Inr content \<longrightarrow>
        analyze_and_recommend_node env w s =
          (s\<lparr>recommendations := content,
             messages := messages s @ [AIMessage ''Generated recommendations'']\<rparr>,
           logged
             (Call_invoke (GROQ_API_KEY w)
                [SystemMessage recommend_system_prompt,
                 HumanMessage
                   (recommend_request (user_query s) (json_dumps env (weather_data s)))])
             (logged (Call_ChatGroq (GROQ_API_KEY w)) w)))"
  using assms by (simp add: analyze_and_recommend_node_def get_llm_def invoke_llm_def)

theorem C7_recommendation_stage_witness:
  "GROQ_API_KEY sample_world \<noteq> [] \<and> ChatGroq paris_env (GROQ_API_KEY sample_world) = None \<and>
   weather_data (initial_state paris_query :: int AgentState) = [] \<and>
   analyze_and_recommend_node paris_env sample_world (initial_state paris_query) =
     ((initial_state paris_query)\<lparr>error := ''No weather data available''\<rparr>,
      sample_world\<lparr>calls := [Call_ChatGroq ''gsk'']\<rparr>) \<and>
   weather_data ((initial_state paris_query)\<lparr>weather_data := paris_summary\<rparr>) \<noteq> [] \<and>
   recommendations
     (fst (analyze_and_recommend_node paris_env sample_world
        ((initial_state paris_query)\<lparr>weather_data := paris_summary\<rparr>))) =
     ''Take an umbrella.''"
proof -
  have key: "GROQ_API_KEY sample_world \<noteq> []"
    and groq: "ChatGroq paris_env (GROQ_API_KEY sample_world) = None"
    by (simp_all add: sample_world_def paris_env_def sample_env_def)
  have reply: "llm_invoke paris_env k [SystemMessage recommend_system_prompt, m] =
      Inr ''Take an umbrella.''" for k m
    by (simp add: paris_env_def sample_env_def scripted_recommend)
  show ?thesis
    using C7_recommendation_stage [OF key groq, of "initial_state paris_query"]
      C7_recommendation_stage [OF key groq,
        of "(initial_state paris_query)\<lparr>weather_data := paris_summary\<rparr>" "''Take an umbrella.''"]
      key groq
    by (simp add: initial_state_fields reply paris_summary_nonempty logged_def)
      (simp add: sample_world_def)
qed

section \<open>Repeated invocations\<close>

text \<open>
  Claim C8. With the collaborators fixed as functions of their inputs, invoking the
  pipeline a second time with the same query and the same credentials, in the world
  that the first invocation left behind, returns the same text as the first.
\<close>

theorem C8_repeatable:
  "fst (process_query env (snd (process_query env w q g k)) q g k) =
   fst (process_query env w q g k)"
proof -
  have "same_keys (set_api_keys g k (snd (process_query env w q g k))) (set_api_keys g k w)"
    by (simp add: same_keys_def set_api_keys_def process_query_keys)
  then show ?thesis
    by (rule process_query_same_keys)
qed

theorem C8_repeatable_witness:
  "fst (process_query paris_env (snd (process_query paris_env sample_world paris_query ''gsk'' ''wk''))
         paris_query ''gsk'' ''wk'') =
   ''Take an umbrella.''"
proof -
  have "fst (process_query paris_env sample_world paris_query ''gsk'' ''wk'') =
      ''Take an umbrella.''"
    by (simp add: process_query_def set_api_keys_def strip_paris_query paris_env_def run_paris
        initial_state_fields)
      (simp add: sample_world_def run_paris [unfolded sample_world_def] initial_state_fields)
  then show ?thesis
    using C8_repeatable [of paris_env sample_world paris_query "''gsk''" "''wk''"] by simp
qed

section \<open>The credentials kept by the module\<close>

text \<open>
  Claim C10. Every call of \<open>process_query\<close> leaves each of the two global keys equal to
  the key provided, except that an empty provided key leaves the global as it was. The
  calls made during the run carry exactly these keys. Hence after a call that provided
  keys, a later call with empty keys finds them, keeps them and runs with them.
\<close>

theorem C10_credentials:
  "GROQ_API_KEY (snd (process_query env w q g k)) = (if g \<noteq> [] then g else GROQ_API_KEY w) \<and>
   WEATHER_API_KEY (snd (process_query env w q g k)) =
     (if k \<noteq> [] then k else WEATHER_API_KEY w) \<and>
   extends (set_api_keys g k w) (snd (process_query env w q g k)) \<and>
   GROQ_API_KEY (snd (process_query env (snd (process_query env w q g k)) q' [] [])) =
     (if g \<noteq> [] then g else GROQ_API_KEY w) \<and>
   WEATHER_API_KEY (snd (process_query env (snd (process_query env w q g k)) q' [] [])) =
     (if k \<noteq> [] then k else WEATHER_API_KEY w) \<and>
   extends (snd (process_query env w q g k))
     (snd (process_query env (snd (process_query env w q g k)) q' [] []))"
proof -
  let ?w1 = "snd (process_query env w q g k)"
  have "set_api_keys [] [] ?w1 = ?w1"
    by (simp add: set_api_keys_def)
  then have "extends ?w1 (snd (process_query env ?w1 q' [] []))"
    using process_query_extends [of "[]" "[]" ?w1 env q'] by simp
  then show ?thesis
    using process_query_extends [of g k w env q]
    by (simp add: process_query_keys)
qed

theorem C10_credentials_witness:
  "GROQ_API_KEY
     (snd (process_query paris_env
        (snd (process_query paris_env (sample_world\<lparr>GROQ_API_KEY := [], WEATHER_API_KEY := []\<rparr>)
           paris_query ''gsk'' ''wk''))
        vague_query [] [])) = ''gsk'' \<and>
   WEATHER_API_KEY
     (snd (process_query paris_env
        (snd (process_query paris_env (sample_world\<lparr>GROQ_API_KEY := [], WEATHER_API_KEY := []\<rparr>)
           paris_query ''gsk'' ''wk''))
        vague_query [] [])) = ''wk''"
  using C10_credentials [of paris_env "sample_world\<lparr>GROQ_API_KEY := [], WEATHER_API_KEY := []\<rparr>"
      paris_query "''gsk''" "''wk''" vague_query]
  by simp

end
